theory Spec2Isabelle
  imports Main
begin

section \<open>Strings and the library tables\<close>

text \<open>
  A Python \<^verbatim>\<open>str\<close> is a sequence of Unicode code points, so a string is a list of
  natural numbers here; \<open>str ''abc''\<close> writes an ASCII literal.
\<close>

type_synonym ustr = "nat list"

definition str :: "string \<Rightarrow> ustr" where
  "str s = map of_char s"

text \<open>
  The scripts call into the standard library; four of its tables are not part of the
  repository and are taken as a parameter:
  \<^item> \<open>uni_isalnum\<close>: \<^verbatim>\<open>str.isalnum\<close> of one code point (the test behind \<^verbatim>\<open>\w\<close>);
  \<^item> \<open>uni_lower\<close>: \<^verbatim>\<open>str.lower\<close> (on whole strings: it is not character-wise);
  \<^item> \<open>html5\<close>: the dictionary \<^verbatim>\<open>html.entities.html5\<close>;
  \<^item> \<open>iso_ymd\<close>: \<^verbatim>\<open>datetime.fromisoformat(s).strftime('%Y-%m-%d')\<close>, \<open>None\<close> when
    that raises.
\<close>

record pylib =
  uni_isalnum :: "nat \<Rightarrow> bool"
  uni_lower :: "ustr \<Rightarrow> ustr"
  html5 :: "ustr \<Rightarrow> ustr option"
  iso_ymd :: "ustr \<Rightarrow> ustr option"

text \<open>\<^verbatim>\<open>str.isspace\<close> of one code point, also the class \<^verbatim>\<open>\s\<close>: the table is small.\<close>

definition is_space :: "nat \<Rightarrow> bool" where
  "is_space c =
     ((9 \<le> c \<and> c \<le> 13) \<or> (28 \<le> c \<and> c \<le> 32) \<or> c = 133 \<or> c = 160 \<or> c = 5760
      \<or> (8192 \<le> c \<and> c \<le> 8202) \<or> c = 8232 \<or> c = 8233 \<or> c = 8239 \<or> c = 8287
      \<or> c = 12288)"

definition is_word :: "pylib \<Rightarrow> nat \<Rightarrow> bool" where
  "is_word L c = (uni_isalnum L c \<or> c = 95)"

section \<open>Regular expressions as Python's \<^verbatim>\<open>re\<close> matches them\<close>

text \<open>
  The patterns of the scripts use literals, character sets, the classes \<^verbatim>\<open>\s\<close> and
  \<^verbatim>\<open>\w\<close>, the dot under \<^verbatim>\<open>re.DOTALL\<close>, greedy and lazy repetition of one
  character, \<^verbatim>\<open>?\<close> on a group, alternation and capturing groups.
\<close>

datatype cset = Chr nat | Range nat nat | CatSpace | CatWord

datatype atom = Lit nat | AnyChar | In "cset list" | NotIn "cset list"

datatype regex =
    Eps
  | A atom
  | Seq regex regex
  | Alt regex regex
  | Rep atom nat "nat option" bool
  | Opt regex
  | Grp nat regex

fun cset_ok :: "pylib \<Rightarrow> cset \<Rightarrow> nat \<Rightarrow> bool" where
  "cset_ok L (Chr a) c = (c = a)"
| "cset_ok L (Range a b) c = (a \<le> c \<and> c \<le> b)"
| "cset_ok L CatSpace c = is_space c"
| "cset_ok L CatWord c = is_word L c"

fun atom_ok :: "pylib \<Rightarrow> atom \<Rightarrow> nat \<Rightarrow> bool" where
  "atom_ok L (Lit a) c = (c = a)"
| "atom_ok L AnyChar c = True"
| "atom_ok L (In cs) c = list_ex (\<lambda>x. cset_ok L x c) cs"
| "atom_ok L (NotIn cs) c = (\<not> list_ex (\<lambda>x. cset_ok L x c) cs)"

text \<open>Captured groups: group number to captured text; an unset group is \<open>None\<close>.\<close>

type_synonym caps = "nat \<Rightarrow> ustr option"

fun may_more :: "nat option \<Rightarrow> bool" where
  "may_more None = True"
| "may_more (Some n) = (0 < n)"

fun one_less :: "nat option \<Rightarrow> nat option" where
  "one_less None = None"
| "one_less (Some n) = Some (n - 1)"

text \<open>
  The matcher is a backtracking one, written with a continuation \<open>k\<close> for the rest
  of the pattern: the first alternative that lets the rest succeed wins. A greedy
  repetition takes a character before it tries the rest, a lazy one tries the rest first.
\<close>

fun rep_greedy :: "(nat \<Rightarrow> bool) \<Rightarrow> nat \<Rightarrow> nat option \<Rightarrow> ustr \<Rightarrow> caps
    \<Rightarrow> (ustr \<Rightarrow> caps \<Rightarrow> 'a option) \<Rightarrow> 'a option" where
  "rep_greedy p lo hi [] c k = (if lo = 0 then k [] c else None)"
| "rep_greedy p lo hi (x # xs) c k =
     (if may_more hi \<and> p x then
        (case rep_greedy p (lo - 1) (one_less hi) xs c k of
           Some r \<Rightarrow> Some r
         | None \<Rightarrow> if lo = 0 then k (x # xs) c else None)
      else if lo = 0 then k (x # xs) c else None)"

fun rep_lazy :: "(nat \<Rightarrow> bool) \<Rightarrow> nat \<Rightarrow> nat option \<Rightarrow> ustr \<Rightarrow> caps
    \<Rightarrow> (ustr \<Rightarrow> caps \<Rightarrow> 'a option) \<Rightarrow> 'a option" where
  "rep_lazy p lo hi [] c k = (if lo = 0 then k [] c else None)"
| "rep_lazy p lo hi (x # xs) c k =
     (case (if lo = 0 then k (x # xs) c else None) of
        Some r \<Rightarrow> Some r
      | None \<Rightarrow> if may_more hi \<and> p x then rep_lazy p (lo - 1) (one_less hi) xs c k else None)"

primrec backtrack :: "pylib \<Rightarrow> regex \<Rightarrow> ustr \<Rightarrow> caps \<Rightarrow> (ustr \<Rightarrow> caps \<Rightarrow> 'a option) \<Rightarrow> 'a option" where
  "backtrack L Eps s c k = k s c"
| "backtrack L (A a) s c k = (case s of [] \<Rightarrow> None | x # xs \<Rightarrow> if atom_ok L a x then k xs c else None)"
| "backtrack L (Seq r1 r2) s c k = backtrack L r1 s c (\<lambda>s' c'. backtrack L r2 s' c' k)"
| "backtrack L (Alt r1 r2) s c k = (case backtrack L r1 s c k of Some r \<Rightarrow> Some r | None \<Rightarrow> backtrack L r2 s c k)"
| "backtrack L (Rep a lo hi greedy) s c k =
     (if greedy then rep_greedy (atom_ok L a) lo hi s c k else rep_lazy (atom_ok L a) lo hi s c k)"
| "backtrack L (Opt r) s c k = (case backtrack L r s c k of Some x \<Rightarrow> Some x | None \<Rightarrow> k s c)"
| "backtrack L (Grp n r) s c k = backtrack L r s c (\<lambda>s' c'. k s' (c'(n \<mapsto> take (length s - length s') s)))"

text \<open>
  One attempt at the start of \<open>s\<close>. After an empty match \<^verbatim>\<open>re\<close> looks at the same
  position again and accepts only a match that advances (\<open>must_advance\<close>).
\<close>

definition try_match :: "pylib \<Rightarrow> regex \<Rightarrow> ustr \<Rightarrow> bool \<Rightarrow> (ustr \<times> caps) option" where
  "try_match L r s must_advance =
     backtrack L r s Map.empty
       (\<lambda>s' c. if must_advance \<and> \<not> length s' < length s then None else Some (s', c))"

text \<open>
  The scan shared by \<^verbatim>\<open>re.sub\<close> and \<^verbatim>\<open>re.findall\<close>: left to right, non-overlapping
  matches; a character no match starts at is copied (\<open>Inl\<close>), a match is reported with
  its groups (\<open>Inr\<close>). The matcher hands only suffixes of \<open>s\<close> to its continuation, so
  \<open>length rest < length s\<close> tells a match that consumed something from an empty one.
\<close>

fun re_scan :: "pylib \<Rightarrow> regex \<Rightarrow> ustr \<Rightarrow> (nat + caps) list" where
  "re_scan L r s =
     (case try_match L r s False of
        None \<Rightarrow> (case s of [] \<Rightarrow> [] | x # xs \<Rightarrow> Inl x # re_scan L r xs)
      | Some (rest, c) \<Rightarrow>
          if length rest < length s then Inr c # re_scan L r rest
          else Inr c #
            (case try_match L r s True of
               None \<Rightarrow> (case s of [] \<Rightarrow> [] | x # xs \<Rightarrow> Inl x # re_scan L r xs)
             | Some (rest', c') \<Rightarrow>
                 if length rest' < length s then Inr c' # re_scan L r rest' else []))"

declare re_scan.simps [simp del]

definition re_sub :: "pylib \<Rightarrow> regex \<Rightarrow> (caps \<Rightarrow> ustr) \<Rightarrow> ustr \<Rightarrow> ustr" where
  "re_sub L r repl s = concat (map (case_sum (\<lambda>x. [x]) repl) (re_scan L r s))"

text \<open>\<^verbatim>\<open>m.group(n) or ""\<close>; also what a template puts for a group that took no part.\<close>

definition group_or_empty :: "caps \<Rightarrow> nat \<Rightarrow> ustr" where
  "group_or_empty c n = (case c n of None \<Rightarrow> [] | Some g \<Rightarrow> g)"

text \<open>\<^verbatim>\<open>re.findall\<close> for a pattern with one group: the text of group 1 of every match.\<close>

definition re_findall :: "pylib \<Rightarrow> regex \<Rightarrow> ustr \<Rightarrow> ustr list" where
  "re_findall L r s =
     concat (map (case_sum (\<lambda>x. []) (\<lambda>c. [group_or_empty c 1])) (re_scan L r s))"

text \<open>A replacement template such as \<^verbatim>\<open>r'[\2](\1)'\<close>: literal text and group references.\<close>

datatype titem = T ustr | G nat

definition template :: "titem list \<Rightarrow> caps \<Rightarrow> ustr" where
  "template ts c = concat (map (\<lambda>t. case t of T s \<Rightarrow> s | G n \<Rightarrow> group_or_empty c n) ts)"

text \<open>Writing patterns: a literal string, a sequence, and the usual quantifiers.\<close>

definition lit :: "string \<Rightarrow> regex" where
  "lit s = foldr (\<lambda>c r. Seq (A (Lit (of_char c))) r) s Eps"

definition Seqs :: "regex list \<Rightarrow> regex" where
  "Seqs rs = foldr Seq rs Eps"

definition Star :: "atom \<Rightarrow> regex" where
  "Star a = Rep a 0 None True"

definition Plus :: "atom \<Rightarrow> regex" where
  "Plus a = Rep a 1 None True"

definition LazyStar :: "atom \<Rightarrow> regex" where
  "LazyStar a = Rep a 0 None False"

definition Quest :: "atom \<Rightarrow> regex" where
  "Quest a = Rep a 0 (Some 1) True"

definition ch :: "char \<Rightarrow> cset" where
  "ch c = Chr (of_char c)"

section \<open>String methods\<close>

definition lstrip :: "(nat \<Rightarrow> bool) \<Rightarrow> ustr \<Rightarrow> ustr" where
  "lstrip p s = dropWhile p s"

definition rstrip :: "(nat \<Rightarrow> bool) \<Rightarrow> ustr \<Rightarrow> ustr" where
  "rstrip p s = rev (dropWhile p (rev s))"

text \<open>\<^verbatim>\<open>s.strip()\<close> is \<open>strip is_space s\<close>; \<^verbatim>\<open>s.strip('-')\<close> is \<open>strip (\<lambda>c. c = 45) s\<close>.\<close>

definition strip :: "(nat \<Rightarrow> bool) \<Rightarrow> ustr \<Rightarrow> ustr" where
  "strip p s = rstrip p (lstrip p s)"

text \<open>\<^verbatim>\<open>s.replace(old, new)\<close> for a one-character \<open>old\<close>.\<close>

definition replace_char :: "nat \<Rightarrow> ustr \<Rightarrow> ustr \<Rightarrow> ustr" where
  "replace_char old new s = concat (map (\<lambda>c. if c = old then new else [c]) s)"

fun join :: "ustr \<Rightarrow> ustr list \<Rightarrow> ustr" where
  "join sep [] = []"
| "join sep [x] = x"
| "join sep (x # y # ys) = x @ sep @ join sep (y # ys)"

definition startswith :: "ustr \<Rightarrow> ustr \<Rightarrow> bool" where
  "startswith s p = (take (length p) s = p)"

definition endswith :: "ustr \<Rightarrow> ustr \<Rightarrow> bool" where
  "endswith s p = (length p \<le> length s \<and> drop (length s - length p) s = p)"

text \<open>\<^verbatim>\<open>sub in s\<close>.\<close>

primrec contains :: "ustr \<Rightarrow> ustr \<Rightarrow> bool" where
  "contains [] sub = (sub = [])"
| "contains (x # xs) sub = (startswith (x # xs) sub \<or> contains xs sub)"

text \<open>\<^verbatim>\<open>str(n)\<close> of a natural number.\<close>

fun str_of_nat :: "nat \<Rightarrow> ustr" where
  "str_of_nat n = (if n < 10 then [48 + n] else str_of_nat (n div 10) @ [48 + n mod 10])"

declare str_of_nat.simps [simp del]

text \<open>
  \<^verbatim>\<open>int(s, base)\<close> on a string of digits of that base (the patterns that feed it let
  nothing else through).
\<close>

definition digit_val :: "nat \<Rightarrow> nat" where
  "digit_val c = (if 97 \<le> c then c - 87 else if 65 \<le> c then c - 55 else c - 48)"

definition int_of :: "nat \<Rightarrow> ustr \<Rightarrow> nat" where
  "int_of base s = foldl (\<lambda>a d. a * base + digit_val d) 0 s"

text \<open>An f-string prints \<^verbatim>\<open>None\<close> as the text \<^verbatim>\<open>None\<close>.\<close>

definition fstr :: "ustr option \<Rightarrow> ustr" where
  "fstr v = (case v of None \<Rightarrow> str ''None'' | Some s \<Rightarrow> s)"

text \<open>\<^verbatim>\<open>os.path.basename\<close> and \<^verbatim>\<open>os.path.join\<close> of two parts, as \<^verbatim>\<open>posixpath\<close> has them.\<close>

definition basename :: "ustr \<Rightarrow> ustr" where
  "basename p = rev (takeWhile (\<lambda>c. c \<noteq> 47) (rev p))"

definition path_join :: "ustr \<Rightarrow> ustr \<Rightarrow> ustr" where
  "path_join a b =
     (if startswith b [47] then b
      else if a = [] \<or> endswith a [47] then a @ b
      else a @ [47] @ b)"

section \<open>\<^verbatim>\<open>html.unescape\<close>\<close>

text \<open>
  The standard library's function, as \<^verbatim>\<open>html/__init__.py\<close> has it: the pattern
  \<^verbatim>\<open>&(#[0-9]+;?|#[xX][0-9a-fA-F]+;?|[^\t\n\f <&#;]{1,32};?)\<close> and the function that
  replaces each match by the character it names.
\<close>

definition rng :: "char \<Rightarrow> char \<Rightarrow> cset" where
  "rng a b = Range (of_char a) (of_char b)"

definition charref :: regex where
  "charref =
     Seq (lit ''&'')
       (Grp 1
         (Alt (Seqs [lit ''#'', Plus (In [rng CHR ''0'' CHR ''9'']), Quest (Lit 59)])
         (Alt (Seqs [lit ''#'', A (In [ch CHR ''x'', ch CHR ''X'']),
                     Plus (In [rng CHR ''0'' CHR ''9'', rng CHR ''a'' CHR ''f'', rng CHR ''A'' CHR ''F'']),
                     Quest (Lit 59)])
              (Seqs [Rep (NotIn [Chr 9, Chr 10, Chr 12, ch CHR '' '', ch CHR ''<'', ch CHR ''&'',
                                 ch CHR ''#'', ch CHR '';'']) 1 (Some 32) True,
                     Quest (Lit 59)]))))"

definition invalid_charrefs :: "(nat \<times> ustr) list" where
  "invalid_charrefs =
     [(0x00, [0xfffd]), (0x0d, [0x0d]), (0x80, [0x20ac]), (0x81, [0x81]), (0x82, [0x201a]),
      (0x83, [0x0192]), (0x84, [0x201e]), (0x85, [0x2026]), (0x86, [0x2020]), (0x87, [0x2021]),
      (0x88, [0x02c6]), (0x89, [0x2030]), (0x8a, [0x0160]), (0x8b, [0x2039]), (0x8c, [0x0152]),
      (0x8d, [0x8d]), (0x8e, [0x017d]), (0x8f, [0x8f]), (0x90, [0x90]), (0x91, [0x2018]),
      (0x92, [0x2019]), (0x93, [0x201c]), (0x94, [0x201d]), (0x95, [0x2022]), (0x96, [0x2013]),
      (0x97, [0x2014]), (0x98, [0x02dc]), (0x99, [0x2122]), (0x9a, [0x0161]), (0x9b, [0x203a]),
      (0x9c, [0x0153]), (0x9d, [0x9d]), (0x9e, [0x017e]), (0x9f, [0x0178])]"

definition invalid_codepoint :: "nat \<Rightarrow> bool" where
  "invalid_codepoint n =
     ((0x1 \<le> n \<and> n \<le> 0x8) \<or> (0xe \<le> n \<and> n \<le> 0x1f) \<or> (0x7f \<le> n \<and> n \<le> 0x9f)
      \<or> (0xfdd0 \<le> n \<and> n \<le> 0xfdef) \<or> n = 0xb
      \<or> (n \<le> 0x10ffff \<and> (n mod 0x10000 = 0xfffe \<or> n mod 0x10000 = 0xffff)))"

primrec longest_name :: "pylib \<Rightarrow> ustr \<Rightarrow> nat \<Rightarrow> ustr option" where
  "longest_name L s 0 = None"
| "longest_name L s (Suc x) =
     (if Suc x \<le> 1 then None
      else case html5 L (take (Suc x) s) of
             Some v \<Rightarrow> Some (v @ drop (Suc x) s)
           | None \<Rightarrow> longest_name L s x)"

definition replace_charref :: "pylib \<Rightarrow> caps \<Rightarrow> ustr" where
  "replace_charref L c =
     (let s = group_or_empty c 1 in
      if take 1 s = str ''#'' then
        (let num = (if take 1 (drop 1 s) = str ''x'' \<or> take 1 (drop 1 s) = str ''X''
                    then int_of 16 (rstrip (\<lambda>c. c = 59) (drop 2 s))
                    else int_of 10 (rstrip (\<lambda>c. c = 59) (drop 1 s)))
         in case map_of invalid_charrefs num of
              Some v \<Rightarrow> v
            | None \<Rightarrow>
                if (0xD800 \<le> num \<and> num \<le> 0xDFFF) \<or> 0x10FFFF < num then [0xFFFD]
                else if invalid_codepoint num then []
                else [num])
      else
        (case html5 L s of
           Some v \<Rightarrow> v
         | None \<Rightarrow>
             (case longest_name L s (length s - 1) of
                Some v \<Rightarrow> v
              | None \<Rightarrow> str ''&'' @ s)))"

definition html_unescape :: "pylib \<Rightarrow> ustr \<Rightarrow> ustr" where
  "html_unescape L s = (if 38 \<notin> set s then s else re_sub L charref (replace_charref L) s)"

section \<open>\<^verbatim>\<open>blogger_converter.py\<close>\<close>

subsection \<open>\<^verbatim>\<open>clean_filename\<close>\<close>

definition any_tag :: regex where
  "any_tag = Seqs [lit ''<'', Plus (NotIn [ch CHR ''>'']), lit ''>'']"

definition clean_filename :: "pylib \<Rightarrow> ustr \<Rightarrow> ustr" where
  "clean_filename L title =
     (let title = re_sub L any_tag (template []) title;
          title = re_sub L (A (NotIn [CatWord, CatSpace, ch CHR ''-''])) (template []) title;
          title = re_sub L (Plus (In [ch CHR ''-'', CatSpace])) (template [T (str ''-'')]) title
      in uni_lower L (strip (\<lambda>c. c = 45) title))"

subsection \<open>\<^verbatim>\<open>convert_list\<close> and \<^verbatim>\<open>html_to_markdown\<close>\<close>

text \<open>The pattern \<^verbatim>\<open><NAME[^>]*>(.*?)</NAME>\<close> under \<^verbatim>\<open>re.DOTALL\<close>.\<close>

definition element :: "string \<Rightarrow> regex" where
  "element name =
     Seqs [lit (''<'' @ name), Star (NotIn [ch CHR ''>'']), lit ''>'',
           Grp 1 (LazyStar AnyChar), lit (''</'' @ name @ ''>'')]"

definition convert_list :: "pylib \<Rightarrow> ustr \<Rightarrow> ustr \<Rightarrow> ustr" where
  "convert_list L list_content list_type =
     (let items = re_findall L (element ''li'') list_content;
          markdown_items =
            map (\<lambda>(i, item).
                   let item = strip is_space (re_sub L any_tag (template []) item)
                   in if list_type = str ''ul'' then str ''- '' @ item
                      else str_of_nat (i + 1) @ str ''. '' @ item)
                (zip [0..<length items] items)
      in [10] @ join [10] markdown_items @ [10])"

definition img_pattern :: regex where
  "img_pattern =
     Seqs [lit ''<img'', Plus (NotIn [ch CHR ''>'']), lit ''src=\"'',
           Grp 1 (Plus (NotIn [ch CHR 0x22])), lit ''\"'', Star (NotIn [ch CHR ''>'']),
           Opt (Seqs [lit ''alt=\"'', Grp 2 (Star (NotIn [ch CHR 0x22])), lit ''\"'']),
           Star (NotIn [ch CHR ''>'']), lit ''>'']"

definition link_pattern :: regex where
  "link_pattern =
     Seqs [lit ''<a'', Plus (NotIn [ch CHR ''>'']), lit ''href=\"'',
           Grp 1 (Plus (NotIn [ch CHR 0x22])), lit ''\"'', Star (NotIn [ch CHR ''>'']), lit ''>'',
           Grp 2 (LazyStar AnyChar), lit ''</a>'']"

definition heading_pattern :: regex where
  "heading_pattern =
     Seqs [lit ''<h'', Grp 1 (A (In [rng CHR ''1'' CHR ''6''])), Star (NotIn [ch CHR ''>'']),
           lit ''>'', Grp 2 (LazyStar AnyChar), lit ''</h'', A (In [rng CHR ''1'' CHR ''6'']),
           lit ''>'']"

definition br_pattern :: regex where
  "br_pattern = Seqs [lit ''<br'', Star (In [CatSpace]), Quest (Lit 47), lit ''>'']"

definition pre_code_pattern :: regex where
  "pre_code_pattern =
     Seqs [lit ''<pre'', Star (NotIn [ch CHR ''>'']), lit ''><code'', Star (NotIn [ch CHR ''>'']),
           lit ''>'', Grp 1 (LazyStar AnyChar), lit ''</code></pre>'']"

definition blank_lines :: regex where
  "blank_lines =
     Seqs [A (Lit 10), Star (In [CatSpace]), A (Lit 10), Star (In [CatSpace]), A (Lit 10)]"

text \<open>
  Every group that a replacement below reads without \<^verbatim>\<open>or ""\<close> has taken part in its
  match, so \<open>group_or_empty\<close> gives its text.
\<close>

definition html_to_markdown :: "pylib \<Rightarrow> ustr \<Rightarrow> ustr" where
  "html_to_markdown L html_content =
     (if html_content = [] then []
      else
        let content = html_unescape L html_content;
            content = re_sub L img_pattern
              (\<lambda>m. str ''!['' @ group_or_empty m 2 @ str ''](''  @ group_or_empty m 1 @ str '')'')
              content;
            content = re_sub L link_pattern
              (template [T (str ''[''), G 2, T (str ''](''), G 1, T (str '')'')]) content;
            content = re_sub L heading_pattern
              (\<lambda>m. replicate (int_of 10 (group_or_empty m 1)) 35 @ str '' '' @ group_or_empty m 2)
              content;
            content = re_sub L (element ''p'') (template [G 1, T [10, 10]]) content;
            content = re_sub L br_pattern (template [T [10]]) content;
            content = re_sub L (element ''strong'') (template [T (str ''**''), G 1, T (str ''**'')])
              content;
            content = re_sub L (element ''b'') (template [T (str ''**''), G 1, T (str ''**'')])
              content;
            content = re_sub L (element ''em'') (template [T (str ''*''), G 1, T (str ''*'')])
              content;
            content = re_sub L (element ''i'') (template [T (str ''*''), G 1, T (str ''*'')])
              content;
            content = re_sub L (element ''ul'')
              (\<lambda>m. convert_list L (group_or_empty m 1) (str ''ul'')) content;
            content = re_sub L (element ''ol'')
              (\<lambda>m. convert_list L (group_or_empty m 1) (str ''ol'')) content;
            content = re_sub L (element ''blockquote'')
              (\<lambda>m. str ''> '' @ replace_char 10 (10 # str ''> '') (strip is_space (group_or_empty m 1)))
              content;
            content = re_sub L pre_code_pattern
              (template [T [96, 96, 96, 10], G 1, T [10, 96, 96, 96]]) content;
            content = re_sub L (element ''code'') (template [T [96], G 1, T [96]]) content;
            content = re_sub L any_tag (template []) content;
            content = re_sub L blank_lines (template [T [10, 10]]) content;
            content = re_sub L (lit ''&nbsp;'') (template [T (str '' '')]) content
        in strip is_space content)"

subsection \<open>\<^verbatim>\<open>format_date\<close>\<close>

text \<open>
  The argument is \<^verbatim>\<open>published_elem.text\<close>, which is \<^verbatim>\<open>None\<close> for an empty element;
  the bare \<^verbatim>\<open>except\<close> then catches the AttributeError and \<^verbatim>\<open>None\<close> comes back.
\<close>

definition format_date :: "pylib \<Rightarrow> ustr option \<Rightarrow> ustr option" where
  "format_date L date_string =
     (case date_string of
        None \<Rightarrow> None
      | Some s \<Rightarrow>
          (case iso_ymd L (replace_char 90 (str ''+00:00'') s) of
             Some d \<Rightarrow> Some d
           | None \<Rightarrow> Some s))"

subsection \<open>\<^verbatim>\<open>extract_blog_entries\<close>\<close>

text \<open>
  The XML parser is the library's; the model starts from what the lookups on one
  \<^verbatim>\<open>entry\<close> element return. An \<open>element\<close> found carries its \<^verbatim>\<open>.text\<close>, which
  is \<^verbatim>\<open>None\<close> when the element is empty.
  \<^item> \<open>category\<close>: the \<^verbatim>\<open>atom:category\<close> of the kind scheme, as its \<^verbatim>\<open>term\<close> attribute
    (\<open>Some None\<close>: the element has no such attribute);
  \<^item> \<open>control\<close>: \<^verbatim>\<open>app:control\<close>, as the text of its \<^verbatim>\<open>app:draft\<close> child
    (\<open>Some None\<close>: no such child);
  \<^item> \<open>title_elem\<close>, \<open>published_elem\<close>, \<open>content_elem\<close>: the text of
    \<^verbatim>\<open>atom:title[@type="text"]\<close>, \<^verbatim>\<open>atom:published\<close> and \<^verbatim>\<open>atom:content[@type="html"]\<close>.
\<close>

record entry =
  category :: "ustr option option"
  control :: "ustr option option option"
  title_elem :: "ustr option option"
  published_elem :: "ustr option option"
  content_elem :: "ustr option option"

text \<open>
  What a run leaves behind: the files written (path to contents; \<^verbatim>\<open>open(path, 'w')\<close>
  replaces what was there), the lines printed, and the counter. Failures of the
  operating system on \<^verbatim>\<open>open\<close> are outside the model.
\<close>

record run =
  files :: "ustr \<Rightarrow> ustr option"
  printed :: "ustr list"
  entries_processed :: nat

datatype error = TypeError

definition is_settings :: "entry \<Rightarrow> bool" where
  "is_settings e =
     (case category e of
        None \<Rightarrow> False
      | Some attr \<Rightarrow> contains (case attr of None \<Rightarrow> [] | Some t \<Rightarrow> t) (str ''settings''))"

definition is_draft :: "entry \<Rightarrow> bool" where
  "is_draft e =
     (case control e of
        Some (Some draft_text) \<Rightarrow> draft_text = Some (str ''yes'')
      | _ \<Rightarrow> False)"

definition entry_title :: "entry \<Rightarrow> ustr option" where
  "entry_title e = (case title_elem e of Some text \<Rightarrow> text | None \<Rightarrow> Some (str ''Untitled''))"

definition entry_filename :: "pylib \<Rightarrow> entry \<Rightarrow> ustr \<Rightarrow> ustr option \<Rightarrow> ustr" where
  "entry_filename L e title published_date =
     (if is_draft e then str ''draft-'' else []) @ fstr published_date @ str ''-''
       @ clean_filename L title @ str ''.md''"

definition entry_text :: "pylib \<Rightarrow> entry \<Rightarrow> ustr \<Rightarrow> ustr option \<Rightarrow> ustr \<Rightarrow> ustr" where
  "entry_text L e title published_date markdown_content =
     str ''# '' @ title @ [10, 10]
       @ str ''**Date:** '' @ fstr published_date @ [10]
       @ (if is_draft e then str ''**Status:** Draft'' @ [10] else [])
       @ [10] @ markdown_content @ [10]"

text \<open>
  The body of the loop. \<^verbatim>\<open>clean_filename(None)\<close> raises TypeError (the title element
  is there and empty), and nothing catches it.
\<close>

definition process_entry :: "pylib \<Rightarrow> ustr \<Rightarrow> entry \<Rightarrow> run \<Rightarrow> error + run" where
  "process_entry L output_dir e st =
     (if is_settings e then Inr st
      else
        (case published_elem e of
           None \<Rightarrow> Inr st
         | Some published_text \<Rightarrow>
             (let published_date = format_date L published_text in
              (case content_elem e of
                 None \<Rightarrow> Inr st
               | Some content_text \<Rightarrow>
                   (let html_content = (case content_text of None \<Rightarrow> [] | Some t \<Rightarrow> t);
                        markdown_content = html_to_markdown L html_content
                    in (case entry_title e of
                          None \<Rightarrow> Inl TypeError
                        | Some title \<Rightarrow>
                            (let filename = entry_filename L e title published_date;
                                 filepath = path_join output_dir filename
                             in Inr (st\<lparr>files := (files st)(filepath \<mapsto>
                                       entry_text L e title published_date markdown_content),
                                     printed := printed st @ [str ''Created: '' @ filename],
                                     entries_processed := entries_processed st + 1\<rparr>))))))))"

text \<open>The loop stops at the first error and keeps what was written before it.\<close>

fun entries_loop :: "pylib \<Rightarrow> ustr \<Rightarrow> entry list \<Rightarrow> run \<Rightarrow> (error \<times> run) + run" where
  "entries_loop L output_dir [] st = Inr st"
| "entries_loop L output_dir (e # es) st =
     (case process_entry L output_dir e st of
        Inl err \<Rightarrow> Inl (err, st)
      | Inr st' \<Rightarrow> entries_loop L output_dir es st')"

text \<open>
  \<open>xml\<close> is what \<^verbatim>\<open>ET.parse\<close> gives: the message of a ParseError, or the entries
  \<^verbatim>\<open>root.findall('.//atom:entry')\<close> lists in document order. \<open>fs\<close> is the file system
  before the run.
\<close>

definition extract_blog_entries ::
    "pylib \<Rightarrow> ustr + entry list \<Rightarrow> ustr \<Rightarrow> (ustr \<Rightarrow> ustr option) \<Rightarrow> (error \<times> run) + run" where
  "extract_blog_entries L xml output_dir fs =
     (case xml of
        Inl e \<Rightarrow>
          Inr \<lparr>files = fs, printed = [str ''Error parsing XML file: '' @ e], entries_processed = 0\<rparr>
      | Inr entries \<Rightarrow>
          (case entries_loop L output_dir entries \<lparr>files = fs, printed = [], entries_processed = 0\<rparr> of
             Inl x \<Rightarrow> Inl x
           | Inr st \<Rightarrow>
               Inr (st\<lparr>printed := printed st @
                     [[10] @ str ''Processed '' @ str_of_nat (entries_processed st)
                        @ str '' blog entries.'']\<rparr>)))"

section \<open>\<^verbatim>\<open>tumblr_export_html_to_markdown_converter.py\<close>\<close>

definition image_extensions :: "ustr list" where
  "image_extensions =
     [str ''.jpg'', str ''.jpeg'', str ''.png'', str ''.gif'', str ''.bmp'', str ''.webp'',
      str ''.svg'']"

definition replace_markdown_image_path :: "caps \<Rightarrow> ustr" where
  "replace_markdown_image_path m =
     (let alt_text = group_or_empty m 1;
          original_path = group_or_empty m 2;
          filename = basename original_path;
          new_path = str ''tumblrmedia/'' @ filename
      in str ''!['' @ alt_text @ str '']('' @ new_path @ str '')'')"

definition replace_image_links :: "pylib \<Rightarrow> caps \<Rightarrow> ustr" where
  "replace_image_links L m =
     (let link_text = group_or_empty m 1;
          original_path = group_or_empty m 2
      in if list_ex (\<lambda>ext. endswith (uni_lower L original_path) ext) image_extensions
         then str ''!['' @ link_text @ str '']('' @ str ''tumblrmedia/'' @ basename original_path
                @ str '')''
         else str ''['' @ link_text @ str '']('' @ original_path @ str '')'')"

definition md_link :: regex where
  "md_link =
     Seqs [lit ''['', Grp 1 (Star (NotIn [ch CHR '']''])), lit '']('',
           Grp 2 (Plus (NotIn [ch CHR '')''])), lit '')'']"

definition convert_image_paths :: "pylib \<Rightarrow> ustr \<Rightarrow> ustr" where
  "convert_image_paths L markdown_content =
     (let markdown_content =
            re_sub L (Seq (lit ''!'') md_link) replace_markdown_image_path markdown_content;
          markdown_content = re_sub L md_link (replace_image_links L) markdown_content
      in markdown_content)"

section \<open>A reference library\<close>

text \<open>
  An instance of the library tables for evaluating the scripts on concrete inputs. It
  holds the rows of CPython's tables for the code points U+0000 to U+00FF and for
  U+0130 (whose lower case is the two code points U+0069 U+0307), the common entries
  of \<^verbatim>\<open>html.entities.html5\<close>, and a reader for timestamps of the form
  \<^verbatim>\<open>YYYY-MM-DD\<close>, alone or followed by a separator and
  \<^verbatim>\<open>HH:MM[:SS[.fff[fff]]][+HH:MM]\<close>. The library accepts more timestamps than
  this reader and knows more rows; the general theorems below hold for every library.
\<close>

definition ref_isalnum :: "nat \<Rightarrow> bool" where
  "ref_isalnum c =
     ((48 \<le> c \<and> c \<le> 57) \<or> (65 \<le> c \<and> c \<le> 90) \<or> (97 \<le> c \<and> c \<le> 122) \<or> c = 170
      \<or> c = 178 \<or> c = 179 \<or> c = 181 \<or> c = 185 \<or> c = 186 \<or> (188 \<le> c \<and> c \<le> 190)
      \<or> (192 \<le> c \<and> c \<le> 214) \<or> (216 \<le> c \<and> c \<le> 246) \<or> (248 \<le> c \<and> c \<le> 255)
      \<or> c = 304)"

definition ref_lower_char :: "nat \<Rightarrow> ustr" where
  "ref_lower_char c =
     (if (65 \<le> c \<and> c \<le> 90) \<or> (192 \<le> c \<and> c \<le> 214) \<or> (216 \<le> c \<and> c \<le> 222) then [c + 32]
      else if c = 304 then [105, 775]
      else [c])"

definition ref_lower :: "ustr \<Rightarrow> ustr" where
  "ref_lower s = concat (map ref_lower_char s)"

definition ref_html5 :: "ustr \<Rightarrow> ustr option" where
  "ref_html5 =
     map_of [(str ''amp;'', [38]), (str ''amp'', [38]), (str ''lt;'', [60]), (str ''lt'', [60]),
             (str ''gt;'', [62]), (str ''gt'', [62]), (str ''quot;'', [34]), (str ''quot'', [34]),
             (str ''nbsp;'', [160]), (str ''nbsp'', [160])]"

definition is_digit :: "nat \<Rightarrow> bool" where
  "is_digit c = (48 \<le> c \<and> c \<le> 57)"

text \<open>Two digits at the head of \<open>s\<close> with a value in \<open>lo..hi\<close>, and the rest.\<close>

definition two_digits :: "nat \<Rightarrow> nat \<Rightarrow> ustr \<Rightarrow> ustr option" where
  "two_digits lo hi s =
     (if 2 \<le> length s \<and> list_all is_digit (take 2 s) \<and> lo \<le> int_of 10 (take 2 s)
         \<and> int_of 10 (take 2 s) \<le> hi
      then Some (drop 2 s) else None)"

definition expect :: "nat \<Rightarrow> ustr \<Rightarrow> ustr option" where
  "expect c s = (case s of [] \<Rightarrow> None | x # xs \<Rightarrow> if x = c then Some xs else None)"

definition days_in_month :: "nat \<Rightarrow> nat \<Rightarrow> nat" where
  "days_in_month y mo =
     (if mo = 2 then (if y mod 4 = 0 \<and> (y mod 100 \<noteq> 0 \<or> y mod 400 = 0) then 29 else 28)
      else if mo = 4 \<or> mo = 6 \<or> mo = 9 \<or> mo = 11 then 30 else 31)"

definition ref_utc_offset :: "ustr \<Rightarrow> bool" where
  "ref_utc_offset s =
     (s = [] \<or>
      (case s of [] \<Rightarrow> False
       | x # xs \<Rightarrow> (x = 43 \<or> x = 45) \<and>
           Option.bind (two_digits 0 23 xs) (\<lambda>s. Option.bind (expect 58 s) (two_digits 0 59))
             = Some []))"

definition ref_fraction :: "ustr \<Rightarrow> bool" where
  "ref_fraction s =
     (case s of
        [] \<Rightarrow> True
      | x # xs \<Rightarrow>
          if x = 46 then
            (let ds = takeWhile is_digit xs
             in (length ds = 3 \<or> length ds = 6) \<and> ref_utc_offset (dropWhile is_digit xs))
          else ref_utc_offset s)"

definition ref_time :: "ustr \<Rightarrow> bool" where
  "ref_time s =
     (case Option.bind (two_digits 0 23 s) (\<lambda>s. Option.bind (expect 58 s) (two_digits 0 59)) of
        None \<Rightarrow> False
      | Some rest \<Rightarrow>
          (case Option.bind (expect 58 rest) (two_digits 0 59) of
             None \<Rightarrow> ref_utc_offset rest
           | Some rest' \<Rightarrow> ref_fraction rest'))"

definition ref_iso_ymd :: "ustr \<Rightarrow> ustr option" where
  "ref_iso_ymd s =
     (let y = int_of 10 (take 4 s); mo = int_of 10 (take 2 (drop 5 s))
      in if 10 \<le> length s \<and> list_all is_digit (take 4 s) \<and> 1000 \<le> y
            \<and> Option.bind (expect 45 (drop 4 s)) (\<lambda>s. Option.bind (two_digits 1 12 s)
                 (\<lambda>s. Option.bind (expect 45 s) (two_digits 1 (days_in_month y mo))))
               = Some (drop 10 s)
            \<and> (length s = 10 \<or> ref_time (drop 11 s))
         then Some (take 10 s) else None)"

definition ref_lib :: pylib where
  "ref_lib = \<lparr>uni_isalnum = ref_isalnum, uni_lower = ref_lower, html5 = ref_html5,
              iso_ymd = ref_iso_ymd\<rparr>"

section \<open>What the claims speak of\<close>

subsection \<open>The steps of \<^verbatim>\<open>clean_filename\<close>, written on lists\<close>

text \<open>
  A tag is \<^verbatim>\<open><\<close>, one or more characters other than \<^verbatim>\<open>>\<close>, and \<^verbatim>\<open>>\<close>; removing
  tags goes left to right.
\<close>

function remove_tags :: "ustr \<Rightarrow> ustr" where
  "remove_tags [] = []"
| "remove_tags (x # xs) =
     (if x = 60 \<and> takeWhile (\<lambda>c. c \<noteq> 62) xs \<noteq> [] \<and> dropWhile (\<lambda>c. c \<noteq> 62) xs \<noteq> []
      then remove_tags (tl (dropWhile (\<lambda>c. c \<noteq> 62) xs))
      else x # remove_tags xs)"
  by pat_completeness auto
termination
proof (relation "measure length", goal_cases)
  case 1
  show ?case by simp
next
  case (2 x xs)
  have "length (dropWhile (\<lambda>c. c \<noteq> 62) xs) \<le> length xs"
    by (rule length_dropWhile_le)
  then show ?case by simp
next
  case (3 x xs)
  show ?case by simp
qed

definition hyphen_or_space :: "nat \<Rightarrow> bool" where
  "hyphen_or_space c = (c = 45 \<or> is_space c)"

text \<open>Every run of hyphens and whitespace becomes one hyphen.\<close>

function collapse :: "ustr \<Rightarrow> ustr" where
  "collapse [] = []"
| "collapse (x # xs) =
     (if hyphen_or_space x then 45 # collapse (dropWhile hyphen_or_space xs)
      else x # collapse xs)"
  by pat_completeness auto
termination
proof (relation "measure length", goal_cases)
  case 1
  show ?case by simp
next
  case (2 x xs)
  have "length (dropWhile hyphen_or_space xs) \<le> length xs"
    by (rule length_dropWhile_le)
  then show ?case by simp
next
  case (3 x xs)
  show ?case by simp
qed

text \<open>
  The steps with the character class as the code has it: \<^verbatim>\<open>\w\<close> is every code point
  that \<^verbatim>\<open>str.isalnum\<close> accepts, and the underscore.
\<close>

definition hyphenate :: "pylib \<Rightarrow> ustr \<Rightarrow> ustr" where
  "hyphenate L title =
     strip (\<lambda>c. c = 45)
       (collapse (filter (\<lambda>c. is_word L c \<or> is_space c \<or> c = 45) (remove_tags title)))"

definition clean_filename_steps :: "pylib \<Rightarrow> ustr \<Rightarrow> ustr" where
  "clean_filename_steps L title = uni_lower L (hyphenate L title)"


text \<open>The steps with the class \<^verbatim>\<open>[A-Za-z0-9_\s-]\<close>, as the specification words it.\<close>

definition ascii_word :: "nat \<Rightarrow> bool" where
  "ascii_word c = ((48 \<le> c \<and> c \<le> 57) \<or> (65 \<le> c \<and> c \<le> 90) \<or> (97 \<le> c \<and> c \<le> 122) \<or> c = 95)"

definition clean_filename_spec :: "pylib \<Rightarrow> ustr \<Rightarrow> ustr" where
  "clean_filename_spec L title =
     uni_lower L (strip (\<lambda>c. c = 45)
       (collapse (filter (\<lambda>c. ascii_word c \<or> is_space c \<or> c = 45) (remove_tags title))))"

subsection \<open>Libraries that agree with CPython below U+0100\<close>

definition latin1 :: "ustr \<Rightarrow> bool" where
  "latin1 s = list_all (\<lambda>c. c < 256) s"

definition latin1_rows :: "pylib \<Rightarrow> bool" where
  "latin1_rows L =
     ((\<forall>c. c < 256 \<longrightarrow> uni_isalnum L c = ref_isalnum c)
      \<and> (\<forall>s. latin1 s \<longrightarrow> uni_lower L s = ref_lower s))"


subsection \<open>Patterns that do not look at \<^verbatim>\<open>\w\<close>\<close>

fun cset_wordfree :: "cset \<Rightarrow> bool" where
  "cset_wordfree CatWord = False"
| "cset_wordfree _ = True"

fun atom_wordfree :: "atom \<Rightarrow> bool" where
  "atom_wordfree (In cs) = list_all cset_wordfree cs"
| "atom_wordfree (NotIn cs) = list_all cset_wordfree cs"
| "atom_wordfree _ = True"

fun wordfree :: "regex \<Rightarrow> bool" where
  "wordfree Eps = True"
| "wordfree (A a) = atom_wordfree a"
| "wordfree (Seq r1 r2) = (wordfree r1 \<and> wordfree r2)"
| "wordfree (Alt r1 r2) = (wordfree r1 \<and> wordfree r2)"
| "wordfree (Rep a lo hi g) = atom_wordfree a"
| "wordfree (Opt r) = wordfree r"
| "wordfree (Grp n r) = wordfree r"

subsection \<open>Entries the loop writes\<close>

text \<open>An entry gets past the three \<^verbatim>\<open>continue\<close> statements.\<close>

definition accepted :: "entry \<Rightarrow> bool" where
  "accepted e = (\<not> is_settings e \<and> published_elem e \<noteq> None \<and> content_elem e \<noteq> None)"


subsection \<open>Sample entries\<close>

text \<open>
  A post of the feed with the title \<^verbatim>\<open>Hello World\<close>, as the lookups on its
  \<^verbatim>\<open>entry\<close> element return it, with the given \<^verbatim>\<open>published\<close> and \<^verbatim>\<open>content\<close>
  elements.
\<close>

definition post :: "ustr option option \<Rightarrow> ustr option option \<Rightarrow> entry" where
  "post published content =
     \<lparr>category = Some (Some (str ''http://schemas.google.com/blogger/2008/kind#post'')),
      control = None,
      title_elem = Some (Some (str ''Hello World'')),
      published_elem = published,
      content_elem = content\<rparr>"

definition hello_entry :: entry where
  "hello_entry =
     post (Some (Some (str ''2024-12-18T19:26:00.000-08:00'')))
       (Some (Some (str ''<p>Hi <b>there</b></p>'')))"

section \<open>Lemmas\<close>


lemma lit_Nil [simp]: "lit [] = Eps" by (simp add: lit_def)
lemma lit_Cons [simp]: "lit (a # w) = Seq (A (Lit (of_char a))) (lit w)" by (simp add: lit_def)
lemma Seqs_Nil [simp]: "Seqs [] = Eps" by (simp add: Seqs_def)
lemma Seqs_Cons [simp]: "Seqs (r # rs) = Seq r (Seqs rs)" by (simp add: Seqs_def)

lemma template_Nil [simp]: "template [] c = []"
  by (simp add: template_def)

lemma template_text [simp]: "template [T s] c = s"
  by (simp add: template_def)

lemma rep_greedy_stop:
  assumes "\<And>x xs. p x \<Longrightarrow> k (x # xs) c = None"
  shows "rep_greedy p lo None s c k =
           (if lo \<le> length (takeWhile p s) then k (dropWhile p s) c else None)"
  by (induction s arbitrary: lo) (auto simp: assms split: option.splits)

lemma rep_greedy_total:
  assumes "\<And>s'. k s' c \<noteq> None"
  shows "rep_greedy p lo None s c k =
           (if lo \<le> length (takeWhile p s) then k (dropWhile p s) c else None)"
  by (induction s arbitrary: lo) (auto simp: assms split: option.splits)

lemma rep_lazy_skip:
  assumes "\<And>i. i < length u \<Longrightarrow> k (drop i u @ v) c = None"
    and "list_all p u" and "k v c = Some r"
  shows "rep_lazy p 0 None (u @ v) c k = Some r"
  using assms
proof (induction u)
  case Nil
  then show ?case by (cases v) simp_all
next
  case (Cons a u)
  have h0: "k (a # u @ v) c = None" using Cons.prems(1)[of 0] by simp
  have hi: "k (drop i u @ v) c = None" if "i < length u" for i
    using Cons.prems(1)[of "Suc i"] that by simp
  have "rep_lazy p 0 None (u @ v) c k = Some r"
    by (rule Cons.IH[OF hi]) (use Cons.prems in simp_all)
  then show ?case using h0 Cons.prems(2) by simp
qed

lemma re_scan_Nil: "try_match L r [] False = None \<Longrightarrow> re_scan L r [] = []"
  by (subst re_scan.simps[of L r "[]"]) simp

lemma re_scan_skip:
  "try_match L r (x # xs) False = None \<Longrightarrow> re_scan L r (x # xs) = Inl x # re_scan L r xs"
  by (subst re_scan.simps[of L r "x # xs"]) simp

lemma re_scan_match:
  "try_match L r s False = Some (rest, c) \<Longrightarrow> length rest < length s
     \<Longrightarrow> re_scan L r s = Inr c # re_scan L r rest"
  by (subst re_scan.simps[of L r s]) simp

lemma re_sub_Nil: "try_match L r [] False = None \<Longrightarrow> re_sub L r f [] = []"
  by (simp add: re_sub_def re_scan_Nil)

lemma re_sub_skip:
  "try_match L r (x # xs) False = None \<Longrightarrow> re_sub L r f (x # xs) = x # re_sub L r f xs"
  by (simp add: re_sub_def re_scan_skip)

lemma re_sub_match:
  "try_match L r s False = Some (rest, c) \<Longrightarrow> length rest < length s
     \<Longrightarrow> re_sub L r f s = f c @ re_sub L r f rest"
  by (simp add: re_sub_def re_scan_match)

lemma not_gt_atom: "atom_ok L (NotIn [ch CHR ''>'']) = (\<lambda>c. c \<noteq> 62)"
  by (rule ext) (simp add: ch_def)

lemma try_match_any_tag:
  "try_match L any_tag s False =
     (case s of [] \<Rightarrow> None
      | x # xs \<Rightarrow>
          if x = 60 \<and> takeWhile (\<lambda>c. c \<noteq> 62) xs \<noteq> [] \<and> dropWhile (\<lambda>c. c \<noteq> 62) xs \<noteq> []
          then Some (tl (dropWhile (\<lambda>c. c \<noteq> 62) xs), Map.empty) else None)"
proof -
  have hd: "y = 62 \<and> 62 \<in> set xs" if "dropWhile (\<lambda>c. c \<noteq> 62) xs = y # ys"
    for xs :: ustr and y ys
    using hd_dropWhile[of "\<lambda>c. c \<noteq> 62" xs] set_dropWhileD[of y "\<lambda>c. c \<noteq> 62" xs] that
    by simp
  show ?thesis
    by (auto simp: try_match_def any_tag_def Plus_def not_gt_atom rep_greedy_stop Suc_le_eq
        dest: hd split: list.splits)
qed

lemma re_sub_any_tag_gen:
  assumes f: "\<And>c. f c = []"
  shows "re_sub L any_tag f s = remove_tags s"
proof (induction s rule: remove_tags.induct)
  case 1
  show ?case by (simp add: re_sub_Nil try_match_any_tag)
next
  case (2 x xs)
  let ?p = "\<lambda>c::nat. c \<noteq> 62"
  show ?case
  proof (cases "x = 60 \<and> takeWhile ?p xs \<noteq> [] \<and> dropWhile ?p xs \<noteq> []")
    case True
    have tm: "try_match L any_tag (x # xs) False = Some (tl (dropWhile ?p xs), Map.empty)"
      using True by (simp add: try_match_any_tag)
    have len: "length (tl (dropWhile ?p xs)) < length (x # xs)"
      using length_dropWhile_le[of ?p xs] by simp
    have "re_sub L any_tag f (x # xs) = re_sub L any_tag f (tl (dropWhile ?p xs))"
      using re_sub_match[OF tm len, where f = f] by (simp add: f)
    then show ?thesis using True "2.IH"(1) by simp
  next
    case False
    have tm: "try_match L any_tag (x # xs) False = None"
      using False by (auto simp: try_match_any_tag)
    have "re_sub L any_tag f (x # xs) = x # re_sub L any_tag f xs"
      by (rule re_sub_skip[OF tm])
    then show ?thesis using False "2.IH"(2) by auto
  qed
qed

lemma re_sub_any_tag: "re_sub L any_tag (template []) s = remove_tags s"
  by (rule re_sub_any_tag_gen) simp

lemma try_match_atom:
  "try_match L (A a) s False =
     (case s of [] \<Rightarrow> None | x # xs \<Rightarrow> if atom_ok L a x then Some (xs, Map.empty) else None)"
  by (simp add: try_match_def)

lemma re_sub_atom_delete_gen:
  assumes f: "\<And>c. f c = []"
  shows "re_sub L (A a) f s = filter (\<lambda>c. \<not> atom_ok L a c) s"
proof (induction s)
  case Nil
  show ?case by (simp add: re_sub_Nil try_match_atom)
next
  case (Cons x xs)
  show ?case
  proof (cases "atom_ok L a x")
    case True
    have tm: "try_match L (A a) (x # xs) False = Some (xs, Map.empty)"
      using True by (simp add: try_match_atom)
    have "re_sub L (A a) f (x # xs) = re_sub L (A a) f xs"
      using re_sub_match[OF tm, where f = f] by (simp add: f)
    then show ?thesis using True Cons by simp
  next
    case False
    have tm: "try_match L (A a) (x # xs) False = None"
      using False by (simp add: try_match_atom)
    show ?thesis using False Cons by (simp add: re_sub_skip[OF tm])
  qed
qed

lemma re_sub_atom_delete:
  "re_sub L (A a) (template []) s = filter (\<lambda>c. \<not> atom_ok L a c) s"
  by (rule re_sub_atom_delete_gen) simp

lemma sep_atom: "atom_ok L (In [ch CHR ''-'', CatSpace]) = hyphen_or_space"
  by (rule ext) (simp add: ch_def hyphen_or_space_def)

lemma try_match_plus:
  "try_match L (Plus a) s False =
     (if takeWhile (atom_ok L a) s \<noteq> [] then Some (dropWhile (atom_ok L a) s, Map.empty)
      else None)"
  by (simp add: try_match_def Plus_def rep_greedy_total Suc_le_eq)

lemma re_sub_collapse_gen:
  assumes f: "\<And>c. f c = [45]"
  shows "re_sub L (Plus (In [ch CHR ''-'', CatSpace])) f s = collapse s"
proof (induction s rule: collapse.induct)
  case 1
  show ?case by (simp add: re_sub_Nil try_match_plus)
next
  case (2 x xs)
  let ?r = "Plus (In [ch CHR ''-'', CatSpace])"
  show ?case
  proof (cases "hyphen_or_space x")
    case True
    have tm: "try_match L ?r (x # xs) False = Some (dropWhile hyphen_or_space xs, Map.empty)"
      using True by (simp add: try_match_plus sep_atom)
    have len: "length (dropWhile hyphen_or_space xs) < length (x # xs)"
      using length_dropWhile_le[of hyphen_or_space xs] by simp
    have "re_sub L ?r f (x # xs) = 45 # re_sub L ?r f (dropWhile hyphen_or_space xs)"
      using re_sub_match[OF tm len, where f = f] by (simp add: f)
    then show ?thesis using True "2.IH"(1) by simp
  next
    case False
    have tm: "try_match L ?r (x # xs) False = None"
      using False by (simp add: try_match_plus sep_atom)
    show ?thesis using False "2.IH"(2) by (simp add: re_sub_skip[OF tm])
  qed
qed

lemma re_sub_collapse:
  "re_sub L (Plus (In [ch CHR ''-'', CatSpace])) (template [T (str ''-'')]) s = collapse s"
  by (rule re_sub_collapse_gen) (simp add: str_def)

lemma clean_filename_steps_eq: "clean_filename L title = clean_filename_steps L title"
proof -
  have "clean_filename L title =
          uni_lower L (strip (\<lambda>c. c = 45) (collapse
            (filter (\<lambda>c. \<not> atom_ok L (NotIn [CatWord, CatSpace, ch CHR ''-'']) c)
              (remove_tags title))))"
    by (simp only: clean_filename_def Let_def re_sub_any_tag re_sub_atom_delete re_sub_collapse)
  then show ?thesis by (simp add: clean_filename_steps_def hyphenate_def ch_def)
qed

lemma set_tl_dropWhile: "set (tl (dropWhile p xs)) \<subseteq> set xs"
proof
  fix y assume "y \<in> set (tl (dropWhile p xs))"
  then have "y \<in> set (dropWhile p xs)" by (cases "dropWhile p xs") auto
  then show "y \<in> set xs" by (rule set_dropWhileD)
qed

lemma set_remove_tags: "set (remove_tags s) \<subseteq> set s"
proof (induction s rule: remove_tags.induct)
  case 1
  show ?case by simp
next
  case (2 x xs)
  let ?p = "\<lambda>c::nat. c \<noteq> 62"
  show ?case
  proof (cases "x = 60 \<and> takeWhile ?p xs \<noteq> [] \<and> dropWhile ?p xs \<noteq> []")
    case True
    then have "set (remove_tags (x # xs)) = set (remove_tags (tl (dropWhile ?p xs)))" by simp
    also have "\<dots> \<subseteq> set (tl (dropWhile ?p xs))" using "2.IH"(1) True by blast
    also have "\<dots> \<subseteq> set xs" by (rule set_tl_dropWhile)
    finally show ?thesis by auto
  next
    case False
    then have "remove_tags (x # xs) = x # remove_tags xs" by auto
    then show ?thesis using "2.IH"(2) False by auto
  qed
qed

lemma collapse_chars:
  "c \<in> set (collapse s) \<Longrightarrow> c = 45 \<or> (c \<in> set s \<and> \<not> hyphen_or_space c)"
  by (induction s arbitrary: c rule: collapse.induct) (auto dest: set_dropWhileD split: if_splits)

lemma set_collapse: "set (collapse s) \<subseteq> insert 45 (set s)"
  using collapse_chars by auto

lemma set_strip: "set (strip p s) \<subseteq> set s"
proof
  fix y assume "y \<in> set (strip p s)"
  then have "y \<in> set (dropWhile p (rev (dropWhile p s)))"
    by (simp add: strip_def rstrip_def lstrip_def)
  then have "y \<in> set (rev (dropWhile p s))" by (rule set_dropWhileD)
  then have "y \<in> set (dropWhile p s)" by simp
  then show "y \<in> set s" by (rule set_dropWhileD)
qed

lemma set_hyphenate: "set (hyphenate L s) \<subseteq> insert 45 (set s)"
proof -
  let ?f = "filter (\<lambda>c. is_word L c \<or> is_space c \<or> c = 45) (remove_tags s)"
  have "set (hyphenate L s) \<subseteq> set (collapse ?f)"
    unfolding hyphenate_def by (rule set_strip)
  also have "\<dots> \<subseteq> insert 45 (set ?f)" by (rule set_collapse)
  also have "\<dots> \<subseteq> insert 45 (set s)" using set_remove_tags[of s] by auto
  finally show ?thesis .
qed

lemma latin1_hyphenate: "latin1 s \<Longrightarrow> latin1 (hyphenate L s)"
  using set_hyphenate[of L s] by (auto simp: latin1_def list_all_iff)

lemma latin1_rows_ref: "latin1_rows ref_lib"
  by (simp add: latin1_rows_def ref_lib_def)

lemma is_word_latin1: "latin1_rows L \<Longrightarrow> c < 256 \<Longrightarrow> is_word L c = (ref_isalnum c \<or> c = 95)"
  by (simp add: latin1_rows_def is_word_def)

lemma hyphenate_latin1:
  assumes "latin1_rows L" and "latin1 s"
  shows "hyphenate L s = hyphenate ref_lib s"
proof -
  have t: "\<forall>c\<in>set (remove_tags s). c < 256"
    using set_remove_tags[of s] assms(2) by (auto simp: latin1_def list_all_iff)
  have "filter (\<lambda>c. is_word L c \<or> is_space c \<or> c = 45) (remove_tags s)
          = filter (\<lambda>c. is_word ref_lib c \<or> is_space c \<or> c = 45) (remove_tags s)"
    by (rule filter_cong)
      (use t is_word_latin1[OF assms(1)] is_word_latin1[OF latin1_rows_ref] in auto)
  then show ?thesis by (simp add: hyphenate_def)
qed

lemma clean_filename_latin1:
  assumes "latin1_rows L" and "latin1 s"
  shows "clean_filename L s = clean_filename ref_lib s"
proof -
  have "latin1 (hyphenate ref_lib s)" using assms(2) by (rule latin1_hyphenate)
  then have "uni_lower L (hyphenate ref_lib s) = uni_lower ref_lib (hyphenate ref_lib s)"
    using assms(1) latin1_rows_ref by (simp add: latin1_rows_def)
  then show ?thesis
    by (simp add: clean_filename_steps_eq clean_filename_steps_def hyphenate_latin1[OF assms])
qed


























lemma cset_ok_cong: "cset_wordfree x \<Longrightarrow> cset_ok L x c = cset_ok L' x c"
  by (cases x) simp_all

lemma list_ex_cset_cong:
  "list_all cset_wordfree cs \<Longrightarrow> list_ex (\<lambda>x. cset_ok L x c) cs = list_ex (\<lambda>x. cset_ok L' x c) cs"
  by (induction cs) (simp_all add: cset_ok_cong[where L = L and L' = L'])

lemma atom_ok_cong: "atom_wordfree a \<Longrightarrow> atom_ok L a = atom_ok L' a"
  by (rule ext, cases a) (simp_all add: list_ex_cset_cong[where L = L and L' = L'])

lemma backtrack_cong: "wordfree r \<Longrightarrow> backtrack L r s c k = backtrack L' r s c k"
  by (induction r arbitrary: s c k)
    (auto simp: atom_ok_cong[where L = L and L' = L'] split: option.splits list.splits)

lemma try_match_cong: "wordfree r \<Longrightarrow> try_match L r s adv = try_match L' r s adv"
  by (simp add: try_match_def backtrack_cong[where L = L and L' = L'])

lemma re_scan_cong: "wordfree r \<Longrightarrow> re_scan L r s = re_scan L' r s"
proof (induction "length s" arbitrary: s rule: less_induct)
  case less
  have tm: "\<And>adv. try_match L r s adv = try_match L' r s adv"
    using less.prems by (rule try_match_cong)
  show ?case
    unfolding re_scan.simps[of L r s] re_scan.simps[of L' r s] tm
    using less by (auto split: option.splits list.splits)
qed

lemma re_sub_cong: "wordfree r \<Longrightarrow> re_sub L r f s = re_sub L' r f s"
  by (simp add: re_sub_def re_scan_cong[where L = L and L' = L'])

lemma re_findall_cong: "wordfree r \<Longrightarrow> re_findall L r s = re_findall L' r s"
  by (simp add: re_findall_def re_scan_cong[where L = L and L' = L'])

lemma wordfree_lit [simp]: "wordfree (lit w)"
  by (induction w) simp_all

lemma wordfree_element [simp]: "wordfree (element name)"
  by (simp add: element_def Star_def LazyStar_def ch_def)

lemma wordfree_any_tag [simp]: "wordfree any_tag"
  by (simp add: any_tag_def Plus_def ch_def)

lemma wordfree_patterns [simp]:
  "wordfree img_pattern" "wordfree link_pattern" "wordfree heading_pattern"
  "wordfree br_pattern" "wordfree pre_code_pattern" "wordfree blank_lines"
  by (simp_all add: img_pattern_def link_pattern_def heading_pattern_def br_pattern_def
      pre_code_pattern_def blank_lines_def Star_def Plus_def LazyStar_def Quest_def ch_def rng_def)

lemma convert_list_cong: "convert_list L c t = convert_list L' c t"
  by (simp add: convert_list_def re_findall_cong[where L = L and L' = L']
      re_sub_cong[where L = L and L' = L'])

lemma html_to_markdown_cong:
  assumes "html_unescape L s = html_unescape L' s"
  shows "html_to_markdown L s = html_to_markdown L' s"
  unfolding html_to_markdown_def Let_def
  using assms
  by (simp add: re_sub_cong[where L = L and L' = L'] convert_list_cong[where L = L and L' = L'])

lemma html_unescape_no_amp: "38 \<notin> set s \<Longrightarrow> html_unescape L s = s"
  by (simp add: html_unescape_def)

lemma html_to_markdown_no_amp:
  "38 \<notin> set s \<Longrightarrow> html_to_markdown L s = html_to_markdown ref_lib s"
  by (rule html_to_markdown_cong) (simp add: html_unescape_no_amp)


lemma process_entry_written:
  "\<not> is_settings e \<Longrightarrow> published_elem e = Some p \<Longrightarrow> content_elem e = Some c
     \<Longrightarrow> entry_title e = Some t
     \<Longrightarrow> process_entry L d e st =
           Inr (st\<lparr>files := (files st)(path_join d (entry_filename L e t (format_date L p)) \<mapsto>
                      entry_text L e t (format_date L p)
                        (html_to_markdown L (case c of None \<Rightarrow> [] | Some x \<Rightarrow> x))),
                   printed := printed st @ [str ''Created: '' @ entry_filename L e t (format_date L p)],
                   entries_processed := entries_processed st + 1\<rparr>)"
  by (simp add: process_entry_def Let_def)

lemma process_entry_skip: "\<not> accepted e \<Longrightarrow> process_entry L d e st = Inr st"
  by (auto simp: process_entry_def accepted_def split: option.splits)

lemma process_entry_count:
  "accepted e \<Longrightarrow> process_entry L d e st = Inr st'
     \<Longrightarrow> entries_processed st' = Suc (entries_processed st)
         \<and> length (printed st') = Suc (length (printed st))"
  by (auto simp: process_entry_def accepted_def Let_def split: option.splits if_splits)

lemma entries_loop_count:
  "entries_loop L d es st = Inr st'
     \<Longrightarrow> entries_processed st' = entries_processed st + length (filter accepted es)
         \<and> length (printed st') = length (printed st) + length (filter accepted es)"
proof (induction es arbitrary: st)
  case Nil
  then show ?case by simp
next
  case (Cons e es)
  show ?case
  proof (cases "process_entry L d e st")
    case (Inl err)
    then show ?thesis using Cons.prems by simp
  next
    case (Inr st1)
    then have loop: "entries_loop L d es st1 = Inr st'" using Cons.prems by simp
    show ?thesis
    proof (cases "accepted e")
      case True
      from process_entry_count[OF True Inr] Cons.IH[OF loop] True show ?thesis by simp
    next
      case False
      then have "st1 = st" using Inr process_entry_skip[OF False, of L d st] by simp
      then show ?thesis using Cons.IH[OF loop] False by simp
    qed
  qed
qed

lemma str_of_nat_digit: "n < 10 \<Longrightarrow> str_of_nat n = [48 + n]"
  by (simp add: str_of_nat.simps)

lemma summary_counts:
  assumes "extract_blog_entries L (Inr es) output_dir fs = Inr st"
  shows "entries_processed st = length (filter accepted es)
         \<and> length (printed st) = Suc (length (filter accepted es))
         \<and> last (printed st) = [10] @ str ''Processed '' @ str_of_nat (length (filter accepted es))
              @ str '' blog entries.''
         \<and> length (filter accepted es) \<le> length es"
proof -
  obtain st1 where loop: "entries_loop L output_dir es \<lparr>files = fs, printed = [], entries_processed = 0\<rparr> = Inr st1"
    and st: "st = st1\<lparr>printed := printed st1 @ [[10] @ str ''Processed '' @ str_of_nat (entries_processed st1) @ str '' blog entries.'']\<rparr>"
    using assms by (auto simp: extract_blog_entries_def split: sum.splits)
  from entries_loop_count[OF loop] show ?thesis by (simp add: st)
qed

section \<open>Evaluations\<close>

lemma md_hello: "html_to_markdown L (str ''<p>Hi <b>there</b></p>'') = str ''Hi **there**''"
  by code_simp

lemma clean_hello_ref: "clean_filename ref_lib (str ''Hello World'') = str ''hello-world''"
  by code_simp

lemma clean_crazy_ref:
  "clean_filename ref_lib (str ''My \"Crazy\" Title!!!'') = str ''my-crazy-title''"
  by code_simp

lemma iso_ref:
  "iso_ymd ref_lib (str ''2024-12-18T19:26:00.000-08:00'') = Some (str ''2024-12-18'')"
  by code_simp


lemma post_kind: "\<not> is_settings (post p c)"
  by code_simp

lemma post_draft: "\<not> is_draft (post p c)"
  by (simp add: is_draft_def post_def)


lemma clean_hello:
  assumes "latin1_rows L"
  shows "clean_filename L (str ''Hello World'') = str ''hello-world''"
proof -
  have "latin1 (str ''Hello World'')" by (simp add: latin1_def str_def)
  from clean_filename_latin1[OF assms this] show ?thesis by (simp add: clean_hello_ref)
qed

lemma process_hello:
  assumes rows: "latin1_rows L"
    and fd: "format_date L p = d"
    and title: "title_elem e = Some (Some (str ''Hello World''))"
    and pub: "published_elem e = Some p"
    and content: "content_elem e = Some (Some (str ''<p>Hi <b>there</b></p>''))"
    and kind: "\<not> is_settings e" and draft: "\<not> is_draft e"
  shows "process_entry L dir e st =
           Inr (st\<lparr>files := (files st)(path_join dir (fstr d @ str ''-hello-world.md'') \<mapsto>
                      str ''# Hello World'' @ [10, 10] @ str ''**Date:** '' @ fstr d @ [10, 10]
                        @ str ''Hi **there**'' @ [10]),
                   printed := printed st @ [str ''Created: '' @ fstr d @ str ''-hello-world.md''],
                   entries_processed := entries_processed st + 1\<rparr>)"
proof -
  have t: "entry_title e = Some (str ''Hello World'')" by (simp add: entry_title_def title)
  show ?thesis
    unfolding process_entry_written[OF kind pub content t] fd
    by (simp add: md_hello clean_hello[OF rows] entry_filename_def entry_text_def draft)
      (simp add: str_def)
qed

section \<open>The claims\<close>

text \<open>
  C1. For a feed export containing one entry with title \<^verbatim>\<open>Hello World\<close>, published
  timestamp \<^verbatim>\<open>2024-12-18T19:26:00.000-08:00\<close> and HTML content
  \<^verbatim>\<open><p>Hi <b>there</b></p>\<close>, the converter writes exactly one file, named
  \<^verbatim>\<open>2024-12-18-hello-world.md\<close>, with the heading line \<^verbatim>\<open># Hello World\<close>, the line
  \<^verbatim>\<open>**Date:** 2024-12-18\<close> and the body \<^verbatim>\<open>Hi **there**\<close>. The entry is any entry with
  these three elements that is neither a settings entry nor a draft; the library is any
  library that agrees with CPython below U+0100 and reads the timestamp as that day.
\<close>

theorem hello_world_end_to_end:
  assumes rows: "latin1_rows L"
    and iso: "iso_ymd L (str ''2024-12-18T19:26:00.000-08:00'') = Some (str ''2024-12-18'')"
    and title: "title_elem e = Some (Some (str ''Hello World''))"
    and pub: "published_elem e = Some (Some (str ''2024-12-18T19:26:00.000-08:00''))"
    and content: "content_elem e = Some (Some (str ''<p>Hi <b>there</b></p>''))"
    and kind: "\<not> is_settings e" and draft: "\<not> is_draft e"
  shows "extract_blog_entries L (Inr [e]) (str ''blog_posts'') fs =
           Inr \<lparr>files = fs(str ''blog_posts/2024-12-18-hello-world.md'' \<mapsto>
                    str ''# Hello World'' @ [10, 10] @ str ''**Date:** 2024-12-18'' @ [10, 10]
                      @ str ''Hi **there**'' @ [10]),
                 printed = [str ''Created: 2024-12-18-hello-world.md'',
                            [10] @ str ''Processed 1 blog entries.''],
                 entries_processed = 1\<rparr>"
proof -
  have fd: "format_date L (Some (str ''2024-12-18T19:26:00.000-08:00'')) = Some (str ''2024-12-18'')"
    using iso by (simp add: format_date_def replace_char_def str_def)
  show ?thesis
    by (simp add: extract_blog_entries_def process_hello[OF rows fd title pub content kind draft]
        str_of_nat_digit fstr_def path_join_def startswith_def endswith_def str_def)
qed

theorem hello_world_end_to_end_witness:
  "extract_blog_entries ref_lib (Inr [hello_entry]) (str ''blog_posts'') Map.empty =
     Inr \<lparr>files = [str ''blog_posts/2024-12-18-hello-world.md'' \<mapsto>
              str ''# Hello World'' @ [10, 10] @ str ''**Date:** 2024-12-18'' @ [10, 10]
                @ str ''Hi **there**'' @ [10]],
           printed = [str ''Created: 2024-12-18-hello-world.md'',
                      [10] @ str ''Processed 1 blog entries.''],
           entries_processed = 1\<rparr>"
  using hello_world_end_to_end[OF latin1_rows_ref iso_ref, of hello_entry Map.empty]
    post_kind post_draft
  by (simp add: hello_entry_def) (simp add: post_def)

text \<open>
  C2. \<^verbatim>\<open>html_to_markdown\<close> is to rewrite \<^verbatim>\<open><img src="S" alt="A">\<close> to \<^verbatim>\<open>![A](S)\<close>. On
  \<^verbatim>\<open><img src="a.png" alt="A">\<close> it returns \<^verbatim>\<open>![](a.png)\<close>: the greedy \<^verbatim>\<open>[^>]*\<close> before the
  optional \<^verbatim>\<open>alt\<close> group takes the attribute, and the group matches nothing.
\<close>

theorem img_alt_is_dropped:
  "html_to_markdown L (str ''<img src=\"a.png\" alt=\"A\">'') = str ''![](a.png)''"
  by code_simp

text \<open>
  C3. \<^verbatim>\<open>html_to_markdown\<close> is to turn \<^verbatim>\<open>&nbsp;\<close> into one space, once. With the entries
  of \<^verbatim>\<open>html.entities.html5\<close> for \<^verbatim>\<open>nbsp;\<close> and \<^verbatim>\<open>amp;\<close>, \<^verbatim>\<open>a&nbsp;b\<close> comes out with
  U+00A0 between the letters (\<^verbatim>\<open>html.unescape\<close> has decoded the entity before the
  substitution of line 75 runs), and \<^verbatim>\<open>a&amp;nbsp;b\<close> comes out as \<^verbatim>\<open>a b\<close>, decoded twice.
\<close>

theorem nbsp_is_not_a_space:
  "html_to_markdown ref_lib (str ''a&nbsp;b'') = [97, 160, 98]
   \<and> html_to_markdown ref_lib (str ''a&amp;nbsp;b'') = str ''a b''"
  by code_simp




text \<open>
  C5. \<^verbatim>\<open>convert_image_paths\<close> is to rewrite \<^verbatim>\<open>![alt](path)\<close> to
  \<^verbatim>\<open>![alt](tumblrmedia/basename(path))\<close>. On \<^verbatim>\<open>![a](x/y.png)\<close> it returns
  \<^verbatim>\<open>!![a](tumblrmedia/y.png)\<close>: the second substitution takes the rewritten reference
  for a link to an image and puts a second \<^verbatim>\<open>!\<close> before it.
\<close>

theorem image_reference_gets_second_bang:
  "convert_image_paths ref_lib (str ''![a](x/y.png)'') = str ''!![a](tumblrmedia/y.png)''"
  by code_simp

text \<open>
  C6, as amended. \<^verbatim>\<open>clean_filename\<close> removes the tags, deletes every character that is
  neither a word character in the sense of \<^verbatim>\<open>\w\<close> (alphanumeric by \<^verbatim>\<open>str.isalnum\<close>, or
  the underscore), nor whitespace, nor a hyphen, turns every run of whitespace and
  hyphens into one hyphen, strips the hyphens at both ends and lowercases. For a title
  of ASCII characters this is the class \<^verbatim>\<open>[A-Za-z0-9_\s-]\<close> of the specification, and
  \<^verbatim>\<open>My "Crazy" Title!!!\<close> becomes \<^verbatim>\<open>my-crazy-title\<close> (for a library that agrees with
  CPython below U+0100).
\<close>

theorem clean_filename_follows_its_steps:
  "clean_filename L title = clean_filename_steps L title
   \<and> (latin1_rows L \<longrightarrow> list_all (\<lambda>c. c < 128) title
        \<longrightarrow> clean_filename L title = clean_filename_spec L title)
   \<and> (latin1_rows L \<longrightarrow> clean_filename L (str ''My \"Crazy\" Title!!!'') = str ''my-crazy-title'')"
proof (intro conjI impI)
  show "clean_filename L title = clean_filename_steps L title"
    by (rule clean_filename_steps_eq)
next
  assume rows: "latin1_rows L" and ascii: "list_all (\<lambda>c. c < 128) title"
  have t: "\<forall>c\<in>set (remove_tags title). c < 128"
    using set_remove_tags[of title] ascii by (auto simp: list_all_iff)
  have w: "is_word L c = ascii_word c" if "c < 128" for c
    using is_word_latin1[OF rows, of c] that by (auto simp: ascii_word_def ref_isalnum_def)
  have "filter (\<lambda>c. is_word L c \<or> is_space c \<or> c = 45) (remove_tags title)
          = filter (\<lambda>c. ascii_word c \<or> is_space c \<or> c = 45) (remove_tags title)"
    by (rule filter_cong) (use t w in auto)
  then show "clean_filename L title = clean_filename_spec L title"
    by (simp add: clean_filename_steps_eq clean_filename_steps_def hyphenate_def
        clean_filename_spec_def)
next
  assume rows: "latin1_rows L"
  have "latin1 (str ''My \"Crazy\" Title!!!'')" by (simp add: latin1_def str_def)
  from clean_filename_latin1[OF rows this]
  show "clean_filename L (str ''My \"Crazy\" Title!!!'') = str ''my-crazy-title''"
    by (simp add: clean_crazy_ref)
qed

theorem clean_filename_follows_its_steps_witness:
  "clean_filename ref_lib (str ''Hello World'') = clean_filename_steps ref_lib (str ''Hello World'')
   \<and> clean_filename ref_lib (str ''Hello World'') = clean_filename_spec ref_lib (str ''Hello World'')
   \<and> clean_filename ref_lib (str ''My \"Crazy\" Title!!!'') = str ''my-crazy-title''"
proof -
  have "list_all (\<lambda>c. c < 128) (str ''Hello World'')" by (simp add: str_def)
  with clean_filename_follows_its_steps[of ref_lib "str ''Hello World''"] latin1_rows_ref
  show ?thesis by blast
qed

text \<open>
  C6 as stated fails: \<^verbatim>\<open>\w\<close> accepts U+00E9, a letter outside \<^verbatim>\<open>[A-Za-z0-9_]\<close>, so the
  title made of that one letter keeps it, and the steps of the specification delete it.
\<close>

theorem clean_filename_keeps_unicode_letters:
  "clean_filename ref_lib [233] = [233] \<and> clean_filename_spec ref_lib [233] = []"
  by code_simp










end
